theory Spec2Isabelle
  imports Complex_Main "HOL-Library.Sublist"
begin

section \<open>Shutter response analysis (analysis\_1\_function.py)\<close>

text \<open>
  The samples of a waveform are floating-point numbers in the source; here they are
  real numbers, so every comparison and every arithmetic step is the exact one.
  Python exceptions are values: a computation returns \<open>Inl e\<close> where the source raises
  \<open>e\<close>, and \<open>Inr v\<close> where it returns \<open>v\<close>.
\<close>

subsection \<open>Exceptions\<close>

text \<open>
  \<open>ValueError\<close> carries where it was raised: by the \<open>raise\<close> statement of
  \<open>main_analysis\<close> (fewer than two low-level intersections) or inside a library call
  (numpy, scipy, pandas, \<open>float\<close>). The handler \<open>except ValueError\<close> of
  \<open>data_integration\<close> does not look at that origin.
\<close>

datatype value_error_origin = TwoLowIntersectionsNotFound | RaisedByLibrary

datatype py_error = ValueError value_error_origin | IndexError | ZeroDivisionError

fun is_ValueError :: "py_error \<Rightarrow> bool" where
  "is_ValueError (ValueError _) = True"
| "is_ValueError IndexError = False"
| "is_ValueError ZeroDivisionError = False"

definition bind :: "py_error + 'a \<Rightarrow> ('a \<Rightarrow> py_error + 'b) \<Rightarrow> py_error + 'b" where
  "bind m f = (case m of Inl e \<Rightarrow> Inl e | Inr v \<Rightarrow> f v)"

subsection \<open>Indexing and division\<close>

text \<open>\<open>xs[i]\<close> for an index \<open>i \<ge> 0\<close>: out of range raises \<open>IndexError\<close>.\<close>

definition getitem :: "'a list \<Rightarrow> nat \<Rightarrow> py_error + 'a" where
  "getitem xs i = (if i < length xs then Inr (xs ! i) else Inl IndexError)"

text \<open>\<open>a / b\<close>, with the zero divisor as a failure of its own.\<close>

definition divide_checked :: "real \<Rightarrow> real \<Rightarrow> py_error + real" where
  "divide_checked a b = (if b = 0 then Inl ZeroDivisionError else Inr (a / b))"

subsection \<open>\<open>find_intersection\<close>\<close>

text \<open>
  The condition of the loop body, for a pair index \<open>i\<close> with \<open>i + 1 < len(y)\<close>:
  \<^verbatim>\<open>(y[i] > level and y[i + 1] < level) or (y[i] < level and y[i + 1] > level)\<close>
\<close>

definition crossing_pair :: "real list \<Rightarrow> real \<Rightarrow> nat \<Rightarrow> bool" where
  "crossing_pair y level i =
     ((y ! i > level \<and> y ! (i + 1) < level) \<or> (y ! i < level \<and> y ! (i + 1) > level))"

text \<open>
  One iteration of \<^verbatim>\<open>for i in range(len(y) - 1)\<close>, on the list of intersections
  collected so far; an exception raised in an earlier iteration has ended the loop.
\<close>

definition find_intersection_step ::
  "real list \<Rightarrow> real list \<Rightarrow> real \<Rightarrow> nat \<Rightarrow> py_error + real list \<Rightarrow> py_error + real list" where
  "find_intersection_step x y level i acc =
     bind acc (\<lambda>intersections.
       if crossing_pair y level i then
         bind (divide_checked (level - y ! i) (y ! (i + 1) - y ! i)) (\<lambda>t.
         bind (getitem x i) (\<lambda>x_i.
         bind (getitem x (i + 1)) (\<lambda>x_i1.
           Inr (intersections @ [x_i + t * (x_i1 - x_i)]))))
       else Inr intersections)"

definition find_intersection :: "real list \<Rightarrow> real list \<Rightarrow> real \<Rightarrow> py_error + real list" where
  "find_intersection x y level =
     fold (find_intersection_step x y level) [0..<length y - 1] (Inr [])"


subsection \<open>numpy operations used by \<open>main_analysis\<close>\<close>

text \<open>\<open>np.max\<close> and \<open>np.min\<close>: a zero-size array raises \<open>ValueError\<close>.\<close>

definition np_max :: "real list \<Rightarrow> py_error + real" where
  "np_max xs = (case xs of [] \<Rightarrow> Inl (ValueError RaisedByLibrary) | v # vs \<Rightarrow> Inr (fold max vs v))"

definition np_min :: "real list \<Rightarrow> py_error + real" where
  "np_min xs = (case xs of [] \<Rightarrow> Inl (ValueError RaisedByLibrary) | v # vs \<Rightarrow> Inr (fold min vs v))"

text \<open>\<open>np.where(condition)[0]\<close>: the indices at which the condition holds, ascending.\<close>

definition np_where :: "bool list \<Rightarrow> nat list" where
  "np_where condition = filter (\<lambda>i. condition ! i) [0..<length condition]"

text \<open>\<open>np.where(condition)[0][0]\<close>: the first such index; \<open>IndexError\<close> when there is none.\<close>

definition first_where :: "bool list \<Rightarrow> py_error + nat" where
  "first_where condition = getitem (np_where condition) 0"

text \<open>
  The masks over consecutive pairs, \<^verbatim>\<open>(c[:-1] < th) & (c[1:] > th)\<close> and
  \<^verbatim>\<open>(c[:-1] > th) & (c[1:] < th)\<close>: entry \<open>i\<close> compares \<open>c[i]\<close> and \<open>c[i + 1]\<close>.
\<close>

definition rising_mask :: "real list \<Rightarrow> real \<Rightarrow> bool list" where
  "rising_mask c th = map2 (\<lambda>a b. a < th \<and> b > th) (butlast c) (tl c)"

definition falling_mask :: "real list \<Rightarrow> real \<Rightarrow> bool list" where
  "falling_mask c th = map2 (\<lambda>a b. a > th \<and> b < th) (butlast c) (tl c)"

text \<open>\<open>xs[indices]\<close> with an array of indices: any index out of range raises.\<close>

definition take_indices :: "'a list \<Rightarrow> nat list \<Rightarrow> py_error + 'a list" where
  "take_indices xs indices =
     (if list_all (\<lambda>i. i < length xs) indices then Inr (map (\<lambda>i. xs ! i) indices)
      else Inl IndexError)"

subsection \<open>The constant model and its fit\<close>

definition ones_like :: "real list \<Rightarrow> real list" where
  "ones_like x = map (\<lambda>_. 1) x"

definition flat_line :: "real list \<Rightarrow> real \<Rightarrow> real list" where
  "flat_line x a = map (\<lambda>one. a * one) (ones_like x)"

text \<open>The sum of squared residuals of \<open>flat_line\<close> with parameter \<open>a\<close> on the data.\<close>

definition sum_squared_residuals :: "real list \<Rightarrow> real list \<Rightarrow> real \<Rightarrow> real" where
  "sum_squared_residuals xdata ydata a =
     sum_list (map2 (\<lambda>f v. (f - v)\<^sup>2) (flat_line xdata a) ydata)"

text \<open>
  Modelled from the spec: \<open>scipy.optimize.curve_fit\<close> is a library function, absent from
  the sources. The spec describes the fit of a partition as an ordinary least squares fit
  of the constant model. The model \<open>flat_line\<close> is linear in its parameter, so the least
  squares parameter solves the normal equation \<open>a * (b \<bullet> b) = b \<bullet> ydata\<close> for the basis
  vector \<open>b = flat_line xdata 1\<close>. Empty \<open>ydata\<close> raises \<open>ValueError\<close>. The two data arrays
  of \<open>main_analysis\<close> are taken with one index array and have the same length; other
  inputs are rejected here.
\<close>

definition curve_fit_flat_line :: "real list \<Rightarrow> real list \<Rightarrow> py_error + real" where
  "curve_fit_flat_line xdata ydata =
     (if ydata = [] then Inl (ValueError RaisedByLibrary)
      else if length xdata \<noteq> length ydata then Inl (ValueError RaisedByLibrary)
      else let b = flat_line xdata 1
           in Inr (sum_list (map2 (*) b ydata) / sum_list (map2 (*) b b)))"

definition mean :: "real list \<Rightarrow> real" where
  "mean vs = sum_list vs / real (length vs)"

subsection \<open>\<open>main_analysis\<close>\<close>

text \<open>
  A data frame is its list of rows \<open>(Time(s), CH1(V), CH2(V))\<close>, so the three columns
  have one length. The metrics are the returned tuple
  \<open>(CH2_rise_duration, CH2_fall_duration, rise_response_time, fall_response_time)\<close>.
\<close>

type_synonym dataframe = "(real \<times> real \<times> real) list"

type_synonym metrics = "real \<times> real \<times> real \<times> real"

text \<open>
  \<open>scipy.signal.savgol_filter\<close> is a library function, absent from the sources: it is a
  parameter of the analysis, called with the channel, the window length and the
  polynomial order, and it may raise.
\<close>

type_synonym smoother = "real list \<Rightarrow> nat \<Rightarrow> nat \<Rightarrow> py_error + real list"

text \<open>Lines 58 to 62: the times of the two jumps of the smoothed trigger channel.\<close>

definition trigger_edges :: "real list \<Rightarrow> real list \<Rightarrow> py_error + real \<times> real" where
  "trigger_edges time CH1 =
     bind (np_max CH1) (\<lambda>mx.
     bind (np_min CH1) (\<lambda>mn.
       let CH1_threshold = (mx + mn) / 2 in
     bind (first_where (rising_mask CH1 CH1_threshold)) (\<lambda>CH1_left_index.
     bind (first_where (falling_mask CH1 CH1_threshold)) (\<lambda>CH1_right_index.
     bind (getitem time CH1_left_index) (\<lambda>CH1_left_time.
     bind (getitem time CH1_right_index) (\<lambda>CH1_right_time.
       Inr (CH1_left_time, CH1_right_time)))))))"

text \<open>Lines 64 to 71: the fitted high and low levels of the smoothed response channel.\<close>

definition fit_levels :: "real list \<Rightarrow> real list \<Rightarrow> py_error + real \<times> real" where
  "fit_levels time CH2 =
     bind (np_max CH2) (\<lambda>mx.
     bind (np_min CH2) (\<lambda>mn.
       let high_indices = np_where (map (\<lambda>v. v > (mx + mn) / 2) CH2) in
     bind (np_max CH2) (\<lambda>mx'.
     bind (np_min CH2) (\<lambda>mn'.
       let low_indices = np_where (map (\<lambda>v. v < (mx' + mn') / 2) CH2) in
     bind (take_indices time high_indices) (\<lambda>time_high.
     bind (take_indices CH2 high_indices) (\<lambda>CH2_high.
     bind (curve_fit_flat_line time_high CH2_high) (\<lambda>CH2_high_level.
     bind (take_indices time low_indices) (\<lambda>time_low.
     bind (take_indices CH2 low_indices) (\<lambda>CH2_low.
     bind (curve_fit_flat_line time_low CH2_low) (\<lambda>CH2_low_level.
       Inr (CH2_high_level, CH2_low_level)))))))))))"

text \<open>The local variables of \<open>main_analysis\<close> that are live after line 77.\<close>

record locals =
  time_values :: "real list"
  CH2_smoothed :: "real list"
  CH1_left_time :: real
  CH1_right_time :: real
  CH2_high_level :: real
  CH2_low_level :: real
  CH2_fall_start_time :: real
  low_intersections :: "real list"

text \<open>Lines 49 to 77. The filter is called with the literals of lines 53 and 54.\<close>

definition main_analysis_to_line_77 :: "smoother \<Rightarrow> dataframe \<Rightarrow> py_error + locals" where
  "main_analysis_to_line_77 savgol_filter data =
     (let time = map (\<lambda>(t, c1, c2). t) data;
          ch1 = map (\<lambda>(t, c1, c2). c1) data;
          ch2 = map (\<lambda>(t, c1, c2). c2) data;
          window_length = 1511;
          polyorder = 3
      in
      bind (savgol_filter ch1 window_length polyorder) (\<lambda>CH1.
      bind (savgol_filter ch2 window_length polyorder) (\<lambda>CH2.
      bind (trigger_edges time CH1) (\<lambda>(left_time, right_time).
      bind (fit_levels time CH2) (\<lambda>(high_level, low_level).
      bind (first_where (falling_mask CH2 high_level)) (\<lambda>CH2_fall_start_index.
      bind (getitem time CH2_fall_start_index) (\<lambda>fall_start_time.
      bind (find_intersection time CH2 low_level) (\<lambda>intersections.
        Inr \<lparr>time_values = time, CH2_smoothed = CH2,
             CH1_left_time = left_time, CH1_right_time = right_time,
             CH2_high_level = high_level, CH2_low_level = low_level,
             CH2_fall_start_time = fall_start_time,
             low_intersections = intersections\<rparr>))))))))"

text \<open>Lines 79 to 94.\<close>

definition main_analysis_from_line_79 :: "locals \<Rightarrow> py_error + metrics" where
  "main_analysis_from_line_79 l =
     (if length (low_intersections l) \<ge> 2 then
        let CH2_rise_start_time = low_intersections l ! 0;
            CH2_fall_end_time = low_intersections l ! 1;
            CH2_fall_duration = CH2_fall_end_time - CH2_fall_start_time l
        in
        bind (first_where (rising_mask (CH2_smoothed l) (CH2_high_level l))) (\<lambda>CH2_rise_end_index.
        bind (getitem (time_values l) CH2_rise_end_index) (\<lambda>CH2_rise_end_time.
          let CH2_rise_duration = CH2_rise_end_time - CH2_rise_start_time;
              rise_response_time = CH2_rise_start_time - CH1_left_time l;
              fall_response_time = CH2_fall_start_time l - CH1_right_time l
          in Inr (CH2_rise_duration, CH2_fall_duration, rise_response_time, fall_response_time)))
      else Inl (ValueError TwoLowIntersectionsNotFound))"

definition main_analysis :: "smoother \<Rightarrow> dataframe \<Rightarrow> py_error + metrics" where
  "main_analysis savgol_filter data =
     bind (main_analysis_to_line_77 savgol_filter data) main_analysis_from_line_79"

subsection \<open>\<open>data_integration\<close>\<close>

text \<open>The five lists that the loop appends to, returned as arrays.\<close>

record groups =
  voltage_group :: "real list"
  rise_time_group :: "real list"
  fall_time_group :: "real list"
  rise_response_time_group :: "real list"
  fall_response_time_group :: "real list"

definition empty_groups :: groups where
  "empty_groups = \<lparr>voltage_group = [], rise_time_group = [], fall_time_group = [],
     rise_response_time_group = [], fall_response_time_group = []\<rparr>"

definition endswith :: "string \<Rightarrow> string \<Rightarrow> bool" where
  "endswith s ending =
     (length ending \<le> length s \<and> drop (length s - length ending) s = ending)"

text \<open>
  The directory is the list of names that \<open>os.listdir\<close> yields, in its order. Two more
  library calls are parameters: \<open>parse_voltage\<close> stands for
  \<^verbatim>\<open>float(file_name.split()[-1].replace(".csv", ""))\<close> and \<open>read_csv\<close> for
  \<open>pd.read_csv\<close> on the joined path; both may raise.

  The body of the \<open>try\<close> statement, lines 117 to 126: it returns the lists as they are
  when the body ends, and the exception that ended it, if any.
\<close>

definition try_body ::
  "smoother \<Rightarrow> (string \<Rightarrow> py_error + real) \<Rightarrow> (string \<Rightarrow> py_error + dataframe) \<Rightarrow>
   groups \<Rightarrow> string \<Rightarrow> groups \<times> py_error option" where
  "try_body savgol_filter parse_voltage read_csv g file_name =
     (case parse_voltage file_name of
        Inl e \<Rightarrow> (g, Some e)
      | Inr voltage \<Rightarrow>
          (case read_csv file_name of
             Inl e \<Rightarrow> (g, Some e)
           | Inr data \<Rightarrow>
               (let g1 = g\<lparr>voltage_group := voltage_group g @ [voltage]\<rparr> in
                case main_analysis savgol_filter data of
                  Inl e \<Rightarrow> (g1, Some e)
                | Inr (outcome0, outcome1, outcome2, outcome3) \<Rightarrow>
                    (g1\<lparr>rise_time_group := rise_time_group g1 @ [outcome0],
                        fall_time_group := fall_time_group g1 @ [outcome1],
                        rise_response_time_group := rise_response_time_group g1 @ [outcome2],
                        fall_response_time_group := fall_response_time_group g1 @ [outcome3]\<rparr>,
                     None))))"

text \<open>
  One iteration of the loop over the directory: \<open>except ValueError\<close> prints and goes on
  with the lists as the body left them; any other exception leaves the function.
\<close>

definition loop_body ::
  "smoother \<Rightarrow> (string \<Rightarrow> py_error + real) \<Rightarrow> (string \<Rightarrow> py_error + dataframe) \<Rightarrow>
   groups \<Rightarrow> string \<Rightarrow> py_error + groups" where
  "loop_body savgol_filter parse_voltage read_csv g file_name =
     (if endswith file_name ''.csv'' then
        (case try_body savgol_filter parse_voltage read_csv g file_name of
           (g', None) \<Rightarrow> Inr g'
         | (g', Some e) \<Rightarrow> if is_ValueError e then Inr g' else Inl e)
      else Inr g)"

fun data_integration_loop ::
  "smoother \<Rightarrow> (string \<Rightarrow> py_error + real) \<Rightarrow> (string \<Rightarrow> py_error + dataframe) \<Rightarrow>
   string list \<Rightarrow> groups \<Rightarrow> py_error + groups" where
  "data_integration_loop savgol_filter parse_voltage read_csv [] g = Inr g"
| "data_integration_loop savgol_filter parse_voltage read_csv (file_name # rest) g =
     bind (loop_body savgol_filter parse_voltage read_csv g file_name)
       (data_integration_loop savgol_filter parse_voltage read_csv rest)"

definition data_integration ::
  "smoother \<Rightarrow> (string \<Rightarrow> py_error + real) \<Rightarrow> (string \<Rightarrow> py_error + dataframe) \<Rightarrow>
   string list \<Rightarrow> py_error + groups" where
  "data_integration savgol_filter parse_voltage read_csv listing =
     data_integration_loop savgol_filter parse_voltage read_csv listing empty_groups"

subsection \<open>What one file contributes\<close>

text \<open>
  Three readings of the \<open>try\<close> body for one file name: the voltage it appends (the
  parse and the read both return), the record it completes (the analysis returns too),
  and the exception that ends it.
\<close>

definition loaded ::
  "(string \<Rightarrow> py_error + real) \<Rightarrow> (string \<Rightarrow> py_error + dataframe) \<Rightarrow> string \<Rightarrow> real option" where
  "loaded parse_voltage read_csv file_name =
     (case parse_voltage file_name of
        Inl e \<Rightarrow> None
      | Inr voltage \<Rightarrow> (case read_csv file_name of Inl e \<Rightarrow> None | Inr data \<Rightarrow> Some voltage))"

definition analysed ::
  "smoother \<Rightarrow> (string \<Rightarrow> py_error + real) \<Rightarrow> (string \<Rightarrow> py_error + dataframe) \<Rightarrow>
   string \<Rightarrow> (real \<times> metrics) option" where
  "analysed savgol_filter parse_voltage read_csv file_name =
     (case parse_voltage file_name of
        Inl e \<Rightarrow> None
      | Inr voltage \<Rightarrow>
          (case read_csv file_name of
             Inl e \<Rightarrow> None
           | Inr data \<Rightarrow>
               (case main_analysis savgol_filter data of
                  Inl e \<Rightarrow> None
                | Inr outcome \<Rightarrow> Some (voltage, outcome))))"

definition raised ::
  "smoother \<Rightarrow> (string \<Rightarrow> py_error + real) \<Rightarrow> (string \<Rightarrow> py_error + dataframe) \<Rightarrow>
   string \<Rightarrow> py_error option" where
  "raised savgol_filter parse_voltage read_csv file_name =
     snd (try_body savgol_filter parse_voltage read_csv empty_groups file_name)"

definition csv_files :: "string list \<Rightarrow> string list" where
  "csv_files listing = filter (\<lambda>file_name. endswith file_name ''.csv'') listing"

subsection \<open>Test inputs\<close>

text \<open>
  A stand-in for the smoothing filter that returns the channel as it is, and four short
  waveforms with rows \<open>(time, trigger, response)\<close>: a response that falls first and
  rises back, one that crosses its low level three times, one that decays and never
  returns, and one whose trigger channel is flat.
\<close>

definition pass_through :: smoother where
  "pass_through c window_length polyorder = Inr c"

definition falling_first_wave :: dataframe where
  "falling_first_wave =
     [(0, 0, 6), (1, 1, 4), (2, 1, 1), (3, 1, - 1), (4, 0, - 1), (5, 0, 1), (6, 0, 4), (7, 0, 6)]"


definition decay_wave :: dataframe where
  "decay_wave = [(0, 0, 6), (1, 1, 4), (2, 1, 6), (3, 0, 4), (4, 0, 1), (5, 0, - 1)]"


text \<open>Directories: file names, the voltages parsed from them and the files' contents.\<close>

definition lookup :: "(string \<times> 'a) list \<Rightarrow> string \<Rightarrow> py_error + 'a" where
  "lookup table file_name =
     (case map_of table file_name of
        None \<Rightarrow> Inl (ValueError RaisedByLibrary)
      | Some v \<Rightarrow> Inr v)"

definition three_files :: "string list" where
  "three_files = [''shutter 5.csv'', ''notes.txt'', ''shutter 1.csv'', ''shutter 3.csv'']"

definition three_voltages :: "(string \<times> real) list" where
  "three_voltages = [(''shutter 5.csv'', 5), (''shutter 1.csv'', 1), (''shutter 3.csv'', 3)]"

definition ten_files :: "string list" where
  "ten_files = [''shutter 1.csv'', ''shutter 2.csv'', ''shutter 3.csv'', ''shutter 4.csv'',
     ''shutter 5.csv'', ''shutter 6.csv'', ''shutter 7.csv'', ''shutter 8.csv'',
     ''shutter 9.csv'', ''shutter 10.csv'']"

definition ten_voltages :: "(string \<times> real) list" where
  "ten_voltages = [(''shutter 1.csv'', 1), (''shutter 2.csv'', 2), (''shutter 3.csv'', 3),
     (''shutter 4.csv'', 4), (''shutter 5.csv'', 5), (''shutter 6.csv'', 6),
     (''shutter 7.csv'', 7), (''shutter 8.csv'', 8), (''shutter 9.csv'', 9),
     (''shutter 10.csv'', 10)]"

definition decay_in_fourth :: "string \<Rightarrow> py_error + dataframe" where
  "decay_in_fourth file_name =
     (if file_name = ''shutter 4.csv'' then Inr decay_wave else Inr falling_first_wave)"


section \<open>Properties of \<open>find_intersection\<close>\<close>

lemma bind_Inr [simp]: "bind (Inr v) f = f v"
  by (simp add: bind_def)

lemma bind_Inl [simp]: "bind (Inl e) f = Inl e"
  by (simp add: bind_def)

lemma crossing_pair_distinct: "crossing_pair y level i \<Longrightarrow> y ! (i + 1) - y ! i \<noteq> 0"
  by (auto simp: crossing_pair_def)

lemma find_intersection_step_Inl [simp]: "find_intersection_step x y level i (Inl e) = Inl e"
  by (simp add: find_intersection_step_def)




lemma find_intersection_step_skip:
  "\<not> crossing_pair y level i \<Longrightarrow> find_intersection_step x y level i (Inr acc) = Inr acc"
  by (simp add: find_intersection_step_def)

lemma find_intersection_step_no_zero_division:
  assumes "acc \<noteq> Inl ZeroDivisionError"
  shows "find_intersection_step x y level i acc \<noteq> Inl ZeroDivisionError"
proof (cases acc)
  case (Inl e)
  with assms show ?thesis by simp
next
  case (Inr ints)
  then show ?thesis
    using crossing_pair_distinct [of y level i]
    by (simp add: find_intersection_step_def divide_checked_def getitem_def)
qed

lemma find_intersection_loop_no_zero_division:
  "fold (find_intersection_step x y level) [0..<n] (Inr []) \<noteq> Inl ZeroDivisionError"
  by (induction n) (simp_all add: find_intersection_step_no_zero_division)

lemma crossing_pair_touch:
  "y ! k = level \<Longrightarrow> \<not> crossing_pair y level k"
  "y ! k = level \<Longrightarrow> 0 < k \<Longrightarrow> \<not> crossing_pair y level (k - 1)"
  by (auto simp: crossing_pair_def)





text \<open>
  C8. \<open>find_intersection\<close> never fails with a division by zero, for any time list, value
  list and level: a pair whose denominator \<open>y[i+1] - y[i]\<close> is zero does not satisfy the
  crossing condition, and its iteration leaves the list of intersections as it was.
\<close>

theorem find_intersection_never_divides_by_zero:
  "find_intersection x y level \<noteq> Inl ZeroDivisionError \<and>
   (y ! (i + 1) - y ! i = 0 \<longrightarrow>
      \<not> crossing_pair y level i \<and> find_intersection_step x y level i (Inr acc) = Inr acc)"
proof -
  have "find_intersection x y level \<noteq> Inl ZeroDivisionError"
    by (simp add: find_intersection_def find_intersection_loop_no_zero_division)
  moreover have "\<not> crossing_pair y level i" if "y ! (i + 1) - y ! i = 0"
    using that crossing_pair_distinct [of y level i] by blast
  ultimately show ?thesis
    using find_intersection_step_skip [of y level i x acc] by blast
qed

theorem find_intersection_never_divides_by_zero_witness:
  "[1, 1, 3::real] ! (0 + 1) - [1, 1, 3] ! 0 = 0 \<and>
   find_intersection [0, 1, 2] [1, 1, 3] 2 = Inr [3 / 2] \<and>
   find_intersection [0, 1, 2] [1, 1, 3] 2 \<noteq> Inl ZeroDivisionError \<and>
   \<not> crossing_pair [1, 1, 3] 2 0 \<and>
   find_intersection_step [0, 1, 2] [1, 1, 3] 2 0 (Inr []) = Inr []"
  using find_intersection_never_divides_by_zero [of "[0, 1, 2]" "[1, 1, 3]" 2 0 "[]"]
  by (simp add: find_intersection_def find_intersection_step_def crossing_pair_def
      divide_checked_def getitem_def upt_rec)

text \<open>
  C10. If the sample \<open>y[k]\<close> equals the level, the iterations of \<open>find_intersection\<close> for
  the two pairs that contain it, \<open>(k, k + 1)\<close> and \<open>(k - 1, k)\<close>, add no intersection;
  and on a value list with fewer than two samples the result is the empty list.
\<close>

theorem find_intersection_touch:
  "(y ! k = level \<longrightarrow>
      find_intersection_step x y level k (Inr acc) = Inr acc \<and>
      (0 < k \<longrightarrow> find_intersection_step x y level (k - 1) (Inr acc) = Inr acc)) \<and>
   (length y < 2 \<longrightarrow> find_intersection x y level = Inr [])"
proof -
  have "find_intersection x y level = Inr []" if "length y < 2"
  proof -
    from that have "[0..<length y - 1] = []" by simp
    then show ?thesis by (simp add: find_intersection_def)
  qed
  then show ?thesis
    using crossing_pair_touch [of y k level]
      find_intersection_step_skip [of y level k x acc]
      find_intersection_step_skip [of y level "k - 1" x acc]
    by blast
qed

theorem find_intersection_touch_witness:
  "[0, 2, 0::real] ! 1 = 2 \<and> (0::nat) < 1 \<and>
   find_intersection_step [0, 1, 2] [0, 2, 0] 2 1 (Inr []) = Inr [] \<and>
   find_intersection_step [0, 1, 2] [0, 2, 0] 2 (1 - 1) (Inr []) = Inr [] \<and>
   find_intersection [0, 1, 2] [0, 2, 0] 2 = Inr [] \<and>
   length [5::real] < 2 \<and> find_intersection [0] [5] 2 = Inr []"
  using find_intersection_touch [of "[0, 2, 0]" 1 2 "[0, 1, 2]" "[]"]
    find_intersection_touch [of "[5]" 0 2 "[0]" "[]"]
  by (simp add: find_intersection_def find_intersection_step_def crossing_pair_def upt_rec)

section \<open>Properties of the edge scan\<close>

lemma np_where_Cons:
  assumes "i < length c" and "c ! i" and "\<forall>k<i. \<not> c ! k"
  shows "\<exists>rest. np_where c = i # rest"
proof -
  have split: "[0..<length c] = [0..<i] @ i # [Suc i..<length c]"
  proof -
    have "[0..<length c] = [0..<i] @ [i..<length c]"
      using assms(1) upt_add_eq_append [of 0 i "length c - i"] by simp
    then show ?thesis using assms(1) by (simp add: upt_conv_Cons)
  qed
  have "filter (\<lambda>k. c ! k) [0..<i] = []"
    using assms(3) by (simp add: filter_empty_conv)
  then show ?thesis
    using assms(2) by (simp add: np_where_def split)
qed

lemma first_where_first:
  assumes "i < length c" and "c ! i" and "\<forall>k<i. \<not> c ! k"
  shows "first_where c = Inr i"
  using np_where_Cons [OF assms] by (auto simp: first_where_def getitem_def)

lemma length_rising_mask [simp]: "length (rising_mask c th) = length c - 1"
  by (simp add: rising_mask_def)

lemma length_falling_mask [simp]: "length (falling_mask c th) = length c - 1"
  by (simp add: falling_mask_def)

lemma nth_rising_mask:
  "i + 1 < length c \<Longrightarrow> rising_mask c th ! i = (c ! i < th \<and> c ! (i + 1) > th)"
  by (simp add: rising_mask_def nth_butlast nth_tl)

lemma nth_falling_mask:
  "i + 1 < length c \<Longrightarrow> falling_mask c th ! i = (c ! i > th \<and> c ! (i + 1) < th)"
  by (simp add: falling_mask_def nth_butlast nth_tl)

lemma np_max_Max: "c \<noteq> [] \<Longrightarrow> np_max c = Inr (Max (set c))"
  by (cases c) (simp_all add: np_max_def Max.set_eq_fold [symmetric])

lemma np_min_Min: "c \<noteq> [] \<Longrightarrow> np_min c = Inr (Min (set c))"
  by (cases c) (simp_all add: np_min_def Min.set_eq_fold [symmetric])

text \<open>A trigger channel without a rising pair ends the edge scan with \<open>IndexError\<close>.\<close>

lemma first_where_none:
  assumes "\<forall>k<length c. \<not> c ! k"
  shows "first_where c = Inl IndexError"
proof -
  have "np_where c = []"
    using assms by (simp add: np_where_def filter_empty_conv)
  then show ?thesis by (simp add: first_where_def getitem_def)
qed

lemma trigger_edges_no_rising_pair:
  assumes "CH1 \<noteq> []"
    and "\<forall>k. k + 1 < length CH1 \<longrightarrow>
           \<not> (CH1 ! k < (Max (set CH1) + Min (set CH1)) / 2 \<and>
              CH1 ! (k + 1) > (Max (set CH1) + Min (set CH1)) / 2)"
  shows "trigger_edges time CH1 = Inl IndexError"
proof -
  define th where "th = (Max (set CH1) + Min (set CH1)) / 2"
  have "first_where (rising_mask CH1 th) = Inl IndexError"
    using assms(2) by (intro first_where_none) (simp add: nth_rising_mask th_def)
  then show ?thesis
    unfolding trigger_edges_def np_max_Max [OF assms(1)] np_min_Min [OF assms(1)] bind_Inr
      Let_def th_def [symmetric]
    by simp
qed

text \<open>
  C5, as the code has it. Let the threshold be the midpoint of the maximum and the minimum
  of the trigger channel, \<open>i\<close> the smallest index with \<open>CH1[i]\<close> below and \<open>CH1[i+1]\<close>
  above the threshold, and \<open>j\<close> the smallest index with \<open>CH1[j]\<close> above and \<open>CH1[j+1]\<close>
  below it. Then the two edge times are \<open>time[i]\<close> and \<open>time[j]\<close>: the time of the earlier
  sample of the first such pair, in each direction.
\<close>

theorem trigger_edges_earlier_sample:
  assumes len: "length time = length CH1"
    and th: "th = (Max (set CH1) + Min (set CH1)) / 2"
    and i: "i + 1 < length CH1" "CH1 ! i < th" "CH1 ! (i + 1) > th"
    and i_first: "\<forall>k<i. \<not> (CH1 ! k < th \<and> CH1 ! (k + 1) > th)"
    and j: "j + 1 < length CH1" "CH1 ! j > th" "CH1 ! (j + 1) < th"
    and j_first: "\<forall>k<j. \<not> (CH1 ! k > th \<and> CH1 ! (k + 1) < th)"
  shows "trigger_edges time CH1 = Inr (time ! i, time ! j)"
proof -
  have ne: "CH1 \<noteq> []" using i(1) by auto
  have left: "first_where (rising_mask CH1 th) = Inr i"
  proof (rule first_where_first)
    show "i < length (rising_mask CH1 th)" using i(1) by simp
    show "rising_mask CH1 th ! i" using i by (simp add: nth_rising_mask)
    show "\<forall>k<i. \<not> rising_mask CH1 th ! k"
      using i(1) i_first by (simp add: nth_rising_mask)
  qed
  have right: "first_where (falling_mask CH1 th) = Inr j"
  proof (rule first_where_first)
    show "j < length (falling_mask CH1 th)" using j(1) by simp
    show "falling_mask CH1 th ! j" using j by (simp add: nth_falling_mask)
    show "\<forall>k<j. \<not> falling_mask CH1 th ! k"
      using j(1) j_first by (simp add: nth_falling_mask)
  qed
  show ?thesis
    using len i(1) j(1) left right
    by (simp add: trigger_edges_def np_max_Max [OF ne] np_min_Min [OF ne] th [symmetric]
        getitem_def)
qed

theorem trigger_edges_earlier_sample_witness:
  "trigger_edges [0, 1, 2] [0, 1, 0] = Inr ([0, 1, 2] ! 0, [0, 1, 2] ! 1)"
proof -
  have mx: "Max (set [0, 1, 0::real]) = 1" by simp
  have mn: "Min (set [0, 1, 0::real]) = 0" by simp
  show ?thesis
    by (rule trigger_edges_earlier_sample [where th = "1 / 2"]) (simp_all add: mx mn)
qed

text \<open>
  On the trigger channel \<open>[0, 1, 0]\<close> sampled at times \<open>[0, 1, 2]\<close> the first rising pair
  is \<open>(0, 1)\<close> and the first falling pair is \<open>(1, 2)\<close>; the later samples are at times
  \<open>1\<close> and \<open>2\<close>, and the code reports \<open>0\<close> and \<open>1\<close>.
\<close>

theorem trigger_edges_later_sample_counterexample:
  "[0, 1, 0::real] ! 0 < 1 / 2 \<and> [0, 1, 0::real] ! (0 + 1) > 1 / 2 \<and>
   trigger_edges [0, 1, 2] [0, 1, 0] = Inr (0, 1) \<and>
   trigger_edges [0, 1, 2] [0, 1, 0] \<noteq> Inr ([0, 1, 2] ! (0 + 1), [0, 1, 2] ! (1 + 1))"
  by (simp add: trigger_edges_def np_max_def np_min_def first_where_def np_where_def
      rising_mask_def falling_mask_def getitem_def upt_rec)

section \<open>The fit of the two levels\<close>

lemma map2_flat_line:
  "length xdata = length ydata \<Longrightarrow>
   map2 f (flat_line xdata a) ydata = map (\<lambda>v. f a v) ydata"
  by (induction xdata ydata rule: list_induct2) (simp_all add: flat_line_def ones_like_def)

lemma sum_squared_residuals_eq:
  "length xdata = length ydata \<Longrightarrow>
   sum_squared_residuals xdata ydata a = (\<Sum>v\<leftarrow>ydata. (a - v)\<^sup>2)"
  by (simp add: sum_squared_residuals_def map2_flat_line)

lemma sum_list_const_real: "(\<Sum>v\<leftarrow>vs. (1::real)) = real (length vs)"
  by (induction vs) simp_all

lemma curve_fit_flat_line_mean:
  assumes "ydata \<noteq> []" and "length xdata = length ydata"
  shows "curve_fit_flat_line xdata ydata = Inr (mean ydata)"
proof -
  have "map2 (*) (flat_line xdata 1) ydata = ydata"
    using assms(2) by (simp add: map2_flat_line)
  moreover have "map2 (*) (flat_line xdata 1) (flat_line xdata 1) = map (\<lambda>v. 1) ydata"
    using assms(2)
    by (induction xdata ydata rule: list_induct2) (simp_all add: flat_line_def ones_like_def)
  ultimately show ?thesis
    using assms by (simp add: curve_fit_flat_line_def mean_def sum_list_const_real)
qed

lemma squares_about:
  "(\<Sum>v\<leftarrow>vs. (a - v)\<^sup>2) =
   (\<Sum>v\<leftarrow>vs. (m - v)\<^sup>2) + 2 * (a - m) * (real (length vs) * m - sum_list vs)
     + real (length vs) * (a - m)\<^sup>2"
  by (induction vs) (simp_all add: power2_eq_square algebra_simps)

lemma mean_least_squares:
  assumes "vs \<noteq> []" and "a \<noteq> mean vs"
  shows "(\<Sum>v\<leftarrow>vs. (mean vs - v)\<^sup>2) < (\<Sum>v\<leftarrow>vs. (a - v)\<^sup>2)"
proof -
  have n: "0 < real (length vs)" using assms(1) by simp
  then have "real (length vs) * mean vs - sum_list vs = 0"
    by (simp add: mean_def)
  then have "(\<Sum>v\<leftarrow>vs. (a - v)\<^sup>2) =
      (\<Sum>v\<leftarrow>vs. (mean vs - v)\<^sup>2) + real (length vs) * (a - mean vs)\<^sup>2"
    using squares_about [of a vs "mean vs"] by simp
  moreover have "0 < real (length vs) * (a - mean vs)\<^sup>2"
    using n assms(2) by simp
  ultimately show ?thesis by simp
qed

lemma np_where_map: "np_where (map P c) = filter (\<lambda>i. P (c ! i)) [0..<length c]"
  by (auto simp: np_where_def intro: filter_cong)

lemma take_indices_where_self:
  "take_indices c (np_where (map P c)) = Inr (filter P c)"
proof -
  have "map (\<lambda>i. c ! i) (filter (\<lambda>i. P (c ! i)) [0..<length c]) = filter P (map (\<lambda>i. c ! i) [0..<length c])"
    by (simp add: filter_map comp_def)
  also have "\<dots> = filter P c" by (simp add: map_nth)
  finally show ?thesis
    by (simp add: take_indices_def np_where_map list_all_iff)
qed

lemma take_indices_where_other:
  "length c \<le> length time \<Longrightarrow>
   \<exists>ts. take_indices time (np_where (map P c)) = Inr ts \<and> length ts = length (filter P c)"
proof -
  assume "length c \<le> length time"
  moreover have "length (filter (\<lambda>i. P (c ! i)) [0..<length c]) = length (filter P (map (\<lambda>i. c ! i) [0..<length c]))"
    by (simp add: filter_map comp_def)
  ultimately show ?thesis
    by (auto simp: take_indices_def np_where_map list_all_iff map_nth)
qed

lemma fit_levels_eq:
  assumes len: "length time = length CH2"
    and th: "th = (Max (set CH2) + Min (set CH2)) / 2"
    and high: "filter (\<lambda>v. v > th) CH2 \<noteq> []"
    and low: "filter (\<lambda>v. v < th) CH2 \<noteq> []"
  shows "fit_levels time CH2 =
     Inr (mean (filter (\<lambda>v. v > th) CH2), mean (filter (\<lambda>v. v < th) CH2))"
proof -
  have ne: "CH2 \<noteq> []" using high by auto
  obtain time_high where h: "take_indices time (np_where (map (\<lambda>v. v > th) CH2)) = Inr time_high"
    and lh: "length time_high = length (filter (\<lambda>v. v > th) CH2)"
    using take_indices_where_other [of CH2 time "\<lambda>v. v > th"] len by auto
  obtain time_low where l: "take_indices time (np_where (map (\<lambda>v. v < th) CH2)) = Inr time_low"
    and ll: "length time_low = length (filter (\<lambda>v. v < th) CH2)"
    using take_indices_where_other [of CH2 time "\<lambda>v. v < th"] len by auto
  show ?thesis
    unfolding fit_levels_def np_max_Max [OF ne] np_min_Min [OF ne] bind_Inr Let_def
      th [symmetric] take_indices_where_self h l
      curve_fit_flat_line_mean [OF high lh] curve_fit_flat_line_mean [OF low ll]
    by (rule refl)
qed

text \<open>
  C6. Let the threshold be the midpoint of the maximum and the minimum of the response
  channel, and let both partitions (the values strictly above it, the values strictly
  below it) be non-empty. Then the two fitted levels are the arithmetic means of the two
  partitions, and each mean is the one parameter of the constant model with the least
  sum of squared residuals on its partition: every other parameter has a strictly larger
  sum.
\<close>

theorem fit_levels_mean:
  assumes "length time = length CH2"
    and "th = (Max (set CH2) + Min (set CH2)) / 2"
    and "high = filter (\<lambda>v. v > th) CH2" and "low = filter (\<lambda>v. v < th) CH2"
    and "high \<noteq> []" and "low \<noteq> []"
  shows "fit_levels time CH2 = Inr (mean high, mean low) \<and>
         (\<forall>xdata a. length xdata = length high \<and> a \<noteq> mean high \<longrightarrow>
            sum_squared_residuals xdata high (mean high) < sum_squared_residuals xdata high a) \<and>
         (\<forall>xdata a. length xdata = length low \<and> a \<noteq> mean low \<longrightarrow>
            sum_squared_residuals xdata low (mean low) < sum_squared_residuals xdata low a)"
  using assms fit_levels_eq [of time CH2 th] mean_least_squares [of high] mean_least_squares [of low]
  by (simp add: sum_squared_residuals_eq)

theorem fit_levels_mean_witness:
  "fit_levels [0, 1, 2, 3, 4, 5, 6, 7] [6, 4, 1, - 1, - 1, 1, 4, 6] = Inr (5, 0) \<and>
   mean [6, 4, 4, 6] = 5 \<and> mean [1, - 1, - 1, 1] = 0 \<and>
   sum_squared_residuals [0, 1, 6, 7] [6, 4, 4, 6] 5 < sum_squared_residuals [0, 1, 6, 7] [6, 4, 4, 6] 4"
proof -
  have mx: "Max (set [6, 4, 1, - 1, - 1, 1, 4, 6 :: real]) = 6" by simp
  have mn: "Min (set [6, 4, 1, - 1, - 1, 1, 4, 6 :: real]) = - 1" by simp
  have m1: "mean [6, 4, 4, 6] = 5" and m2: "mean [1, - 1, - 1, 1] = 0"
    by (simp_all add: mean_def)
  have "fit_levels [0, 1, 2, 3, 4, 5, 6, 7] [6, 4, 1, - 1, - 1, 1, 4, 6] =
          Inr (mean [6, 4, 4, 6], mean [1, - 1, - 1, 1]) \<and>
        (\<forall>xdata a. length xdata = length [6, 4, 4, 6 :: real] \<and> a \<noteq> mean [6, 4, 4, 6] \<longrightarrow>
            sum_squared_residuals xdata [6, 4, 4, 6] (mean [6, 4, 4, 6])
              < sum_squared_residuals xdata [6, 4, 4, 6] a) \<and>
        (\<forall>xdata a. length xdata = length [1, - 1, - 1, 1 :: real] \<and> a \<noteq> mean [1, - 1, - 1, 1] \<longrightarrow>
            sum_squared_residuals xdata [1, - 1, - 1, 1] (mean [1, - 1, - 1, 1])
              < sum_squared_residuals xdata [1, - 1, - 1, 1] a)"
    by (rule fit_levels_mean [where th = "5 / 2"]) (simp_all add: mx mn)
  then have "fit_levels [0, 1, 2, 3, 4, 5, 6, 7] [6, 4, 1, - 1, - 1, 1, 4, 6] = Inr (5, 0)"
    and "sum_squared_residuals [0, 1, 6, 7] [6, 4, 4, 6] 5
           < sum_squared_residuals [0, 1, 6, 7] [6, 4, 4, 6] 4"
    by (simp_all add: m1 m2)
  then show ?thesis by (simp add: m1 m2)
qed

section \<open>Properties of \<open>main_analysis\<close>\<close>

text \<open>The analysis of the test waveforms, stage by stage.\<close>

lemmas scan_defs = np_max_def np_min_def first_where_def np_where_def
  rising_mask_def falling_mask_def getitem_def upt_rec

lemmas fit_defs = fit_levels_def np_max_def np_min_def np_where_def take_indices_def
  curve_fit_flat_line_def flat_line_def ones_like_def upt_rec

lemmas crossing_defs = find_intersection_def find_intersection_step_def crossing_pair_def
  divide_checked_def getitem_def upt_rec

lemma falling_first_wave_locals:
  "main_analysis_to_line_77 pass_through falling_first_wave =
     Inr \<lparr>time_values = [0, 1, 2, 3, 4, 5, 6, 7],
          CH2_smoothed = [6, 4, 1, - 1, - 1, 1, 4, 6],
          CH1_left_time = 0, CH1_right_time = 3,
          CH2_high_level = 5, CH2_low_level = 0,
          CH2_fall_start_time = 0, low_intersections = [5 / 2, 9 / 2]\<rparr>"
proof -
  have "trigger_edges [0, 1, 2, 3, 4, 5, 6, 7] [0, 1, 1, 1, 0, 0, 0, 0] = Inr (0, 3)"
    by (simp add: trigger_edges_def scan_defs)
  moreover have "fit_levels [0, 1, 2, 3, 4, 5, 6, 7] [6, 4, 1, - 1, - 1, 1, 4, 6] = Inr (5, 0)"
    by (simp add: fit_defs)
  moreover have "first_where (falling_mask [6, 4, 1, - 1, - 1, 1, 4, 6] 5) = Inr 0"
    by (simp add: scan_defs)
  moreover have "find_intersection [0, 1, 2, 3, 4, 5, 6, 7] [6, 4, 1, - 1, - 1, 1, 4, 6] 0 =
      Inr [5 / 2, 9 / 2]"
    by (simp add: crossing_defs)
  ultimately show ?thesis
    by (simp add: main_analysis_to_line_77_def falling_first_wave_def pass_through_def
        getitem_def)
qed

lemma falling_first_wave_metrics:
  "main_analysis pass_through falling_first_wave = Inr (7 / 2, 9 / 2, 5 / 2, - 3)"
proof -
  have "first_where (rising_mask [6, 4, 1, - 1, - 1, 1, 4, 6] 5) = Inr 6"
    by (simp add: scan_defs)
  then show ?thesis
    by (simp add: main_analysis_def falling_first_wave_locals main_analysis_from_line_79_def
        getitem_def)
qed



lemma decay_wave_locals:
  "main_analysis_to_line_77 pass_through decay_wave =
     Inr \<lparr>time_values = [0, 1, 2, 3, 4, 5],
          CH2_smoothed = [6, 4, 6, 4, 1, - 1],
          CH1_left_time = 0, CH1_right_time = 2,
          CH2_high_level = 5, CH2_low_level = 0,
          CH2_fall_start_time = 0, low_intersections = [9 / 2]\<rparr>"
proof -
  have "trigger_edges [0, 1, 2, 3, 4, 5] [0, 1, 1, 0, 0, 0] = Inr (0, 2)"
    by (simp add: trigger_edges_def scan_defs)
  moreover have "fit_levels [0, 1, 2, 3, 4, 5] [6, 4, 6, 4, 1, - 1] = Inr (5, 0)"
    by (simp add: fit_defs)
  moreover have "first_where (falling_mask [6, 4, 6, 4, 1, - 1] 5) = Inr 0"
    by (simp add: scan_defs)
  moreover have "find_intersection [0, 1, 2, 3, 4, 5] [6, 4, 6, 4, 1, - 1] 0 = Inr [9 / 2]"
    by (simp add: crossing_defs)
  ultimately show ?thesis
    by (simp add: main_analysis_to_line_77_def decay_wave_def pass_through_def getitem_def)
qed

lemma decay_wave_fails:
  "main_analysis pass_through decay_wave = Inl (ValueError TwoLowIntersectionsNotFound)"
  by (simp add: main_analysis_def decay_wave_locals main_analysis_from_line_79_def)





text \<open>
  Whatever the smoothing filter: the returned fall duration is taken from the second
  intersection and the rise response time from the first one.
\<close>

lemma main_analysis_uses_crossings:
  assumes "main_analysis_to_line_77 savgol_filter data = Inr l"
    and "main_analysis savgol_filter data =
           Inr (rise_duration, fall_duration, rise_response_time, fall_response_time)"
  shows "2 \<le> length (low_intersections l) \<and>
         fall_duration = low_intersections l ! 1 - CH2_fall_start_time l \<and>
         rise_response_time = low_intersections l ! 0 - CH1_left_time l \<and>
         fall_response_time = CH2_fall_start_time l - CH1_right_time l"
  using assms
  by (auto simp: main_analysis_def main_analysis_from_line_79_def bind_def Let_def
      split: if_splits sum.splits)


section \<open>Properties of \<open>data_integration\<close>\<close>

lemma loop_body_not_csv:
  "\<not> endswith f ''.csv'' \<Longrightarrow> loop_body s p r g f = Inr g"
  by (simp add: loop_body_def)

lemma loop_body_csv:
  assumes "endswith f ''.csv''" and "\<forall>e. raised s p r f = Some e \<longrightarrow> is_ValueError e"
  shows "loop_body s p r g f =
     Inr \<lparr>voltage_group = voltage_group g @ List.map_filter (loaded p r) [f],
          rise_time_group = rise_time_group g @
            map (\<lambda>(v, m). fst m) (List.map_filter (analysed s p r) [f]),
          fall_time_group = fall_time_group g @
            map (\<lambda>(v, m). fst (snd m)) (List.map_filter (analysed s p r) [f]),
          rise_response_time_group = rise_response_time_group g @
            map (\<lambda>(v, m). fst (snd (snd m))) (List.map_filter (analysed s p r) [f]),
          fall_response_time_group = fall_response_time_group g @
            map (\<lambda>(v, m). snd (snd (snd m))) (List.map_filter (analysed s p r) [f])\<rparr>"
  using assms
  by (auto simp: loop_body_def try_body_def raised_def loaded_def analysed_def
      Let_def split: sum.splits prod.splits)

lemma data_integration_loop_eq:
  assumes "\<forall>f\<in>set listing. endswith f ''.csv'' \<longrightarrow>
             (\<forall>e. raised s p r f = Some e \<longrightarrow> is_ValueError e)"
  shows "data_integration_loop s p r listing g =
     Inr \<lparr>voltage_group = voltage_group g @ List.map_filter (loaded p r) (csv_files listing),
          rise_time_group = rise_time_group g @
            map (\<lambda>(v, m). fst m) (List.map_filter (analysed s p r) (csv_files listing)),
          fall_time_group = fall_time_group g @
            map (\<lambda>(v, m). fst (snd m)) (List.map_filter (analysed s p r) (csv_files listing)),
          rise_response_time_group = rise_response_time_group g @
            map (\<lambda>(v, m). fst (snd (snd m)))
              (List.map_filter (analysed s p r) (csv_files listing)),
          fall_response_time_group = fall_response_time_group g @
            map (\<lambda>(v, m). snd (snd (snd m)))
              (List.map_filter (analysed s p r) (csv_files listing))\<rparr>"
  using assms
proof (induction listing arbitrary: g)
  case Nil
  show ?case by (simp add: csv_files_def)
next
  case (Cons f rest)
  show ?case
  proof (cases "endswith f ''.csv''")
    case False
    with Cons show ?thesis
      by (simp add: loop_body_not_csv csv_files_def)
  next
    case True
    with Cons.prems have "\<forall>e. raised s p r f = Some e \<longrightarrow> is_ValueError e" by simp
    note step = loop_body_csv [OF True this]
    from Cons.prems have "\<forall>f\<in>set rest. endswith f ''.csv'' \<longrightarrow>
             (\<forall>e. raised s p r f = Some e \<longrightarrow> is_ValueError e)" by simp
    note rest = Cons.IH [OF this]
    show ?thesis
      using True
      by (simp add: step rest csv_files_def split: option.splits)
  qed
qed

lemma analysed_loaded: "analysed s p r f = Some (v, m) \<Longrightarrow> loaded p r f = Some v"
  by (auto simp: analysed_def loaded_def split: sum.splits)

lemma subseq_analysed_loaded:
  "subseq (map fst (List.map_filter (analysed s p r) cs)) (List.map_filter (loaded p r) cs)"
proof (induction cs)
  case Nil
  show ?case by simp
next
  case (Cons f cs)
  show ?case
  proof (cases "analysed s p r f")
    case None
    with Cons show ?thesis
      by (cases "loaded p r f") (auto intro: list_emb_Cons)
  next
    case (Some vm)
    with analysed_loaded [of s p r f "fst vm" "snd vm"] Cons show ?thesis
      by simp
  qed
qed

lemma all_analysed_loaded:
  "list_all (\<lambda>f. analysed s p r f \<noteq> None) cs \<Longrightarrow>
   List.map_filter (loaded p r) cs = map fst (List.map_filter (analysed s p r) cs)"
proof (induction cs)
  case Nil
  show ?case by simp
next
  case (Cons f cs)
  then obtain v m where "analysed s p r f = Some (v, m)" by auto
  with analysed_loaded [OF this] Cons show ?case
    by simp
qed

lemma endswith_csv [simp]:
  "endswith ''shutter 1.csv'' ''.csv''" "endswith ''shutter 2.csv'' ''.csv''"
  "endswith ''shutter 3.csv'' ''.csv''" "endswith ''shutter 4.csv'' ''.csv''"
  "endswith ''shutter 5.csv'' ''.csv''" "endswith ''shutter 6.csv'' ''.csv''"
  "endswith ''shutter 7.csv'' ''.csv''" "endswith ''shutter 8.csv'' ''.csv''"
  "endswith ''shutter 9.csv'' ''.csv''" "endswith ''shutter 10.csv'' ''.csv''"
  "\<not> endswith ''notes.txt'' ''.csv''"
  by (simp_all add: endswith_def)

text \<open>
  Whatever the smoothing filter: a file whose analysis raises \<open>ValueError\<close> leaves its
  voltage in the voltage list, and a file whose analysis raises \<open>IndexError\<close> ends the
  loop.
\<close>

lemma loop_body_keeps_voltage_of_failed_analysis:
  assumes "endswith f ''.csv''" and "p f = Inr v" and "r f = Inr d"
    and "main_analysis s d = Inl (ValueError origin)"
  shows "loop_body s p r g f = Inr (g\<lparr>voltage_group := voltage_group g @ [v]\<rparr>)"
  using assms by (simp add: loop_body_def try_body_def)

lemma data_integration_loop_IndexError:
  assumes "endswith f ''.csv''" and "p f = Inr v" and "r f = Inr d"
    and "main_analysis s d = Inl IndexError"
  shows "data_integration_loop s p r (f # rest) g = Inl IndexError"
  using assms by (simp add: loop_body_def try_body_def)

text \<open>
  C9. If no file of the directory ends its \<open>try\<close> body with an exception other than
  \<open>ValueError\<close>, then \<open>data_integration\<close> returns, and each of the four metric arrays
  lists the completed records in the order of the directory listing, with nothing sorted;
  the voltages of the completed records occur in the voltage array in that same order,
  and when every file is completed the voltage array is exactly their voltages in
  listing order.
\<close>

theorem data_integration_order:
  assumes "\<forall>f\<in>set listing. endswith f ''.csv'' \<longrightarrow>
             (\<forall>e. raised s p r f = Some e \<longrightarrow> is_ValueError e)"
    and "records = List.map_filter (analysed s p r) (csv_files listing)"
  shows "data_integration s p r listing =
           Inr \<lparr>voltage_group = List.map_filter (loaded p r) (csv_files listing),
                rise_time_group = map (\<lambda>(v, m). fst m) records,
                fall_time_group = map (\<lambda>(v, m). fst (snd m)) records,
                rise_response_time_group = map (\<lambda>(v, m). fst (snd (snd m))) records,
                fall_response_time_group = map (\<lambda>(v, m). snd (snd (snd m))) records\<rparr> \<and>
         subseq (map fst records) (List.map_filter (loaded p r) (csv_files listing)) \<and>
         (list_all (\<lambda>f. analysed s p r f \<noteq> None) (csv_files listing) \<longrightarrow>
            List.map_filter (loaded p r) (csv_files listing) = map fst records)"
  using data_integration_loop_eq [OF assms(1), of empty_groups] assms(2)
    subseq_analysed_loaded [of s p r "csv_files listing"]
    all_analysed_loaded [of s p r "csv_files listing"]
  by (simp add: data_integration_def empty_groups_def)

theorem data_integration_order_witness:
  "data_integration pass_through (lookup three_voltages) (\<lambda>file_name. Inr falling_first_wave)
     three_files =
   Inr \<lparr>voltage_group = [5, 1, 3],
        rise_time_group = [7 / 2, 7 / 2, 7 / 2],
        fall_time_group = [9 / 2, 9 / 2, 9 / 2],
        rise_response_time_group = [5 / 2, 5 / 2, 5 / 2],
        fall_response_time_group = [- 3, - 3, - 3]\<rparr>"
proof -
  have raised: "\<forall>f\<in>set three_files. endswith f ''.csv'' \<longrightarrow>
      (\<forall>e. raised pass_through (lookup three_voltages) (\<lambda>file_name. Inr falling_first_wave) f
         = Some e \<longrightarrow> is_ValueError e)"
    by (simp add: three_files_def raised_def try_body_def lookup_def three_voltages_def
        falling_first_wave_metrics)
  have csv: "csv_files three_files = [''shutter 5.csv'', ''shutter 1.csv'', ''shutter 3.csv'']"
    by (simp add: csv_files_def three_files_def)
  have records: "List.map_filter
      (analysed pass_through (lookup three_voltages) (\<lambda>file_name. Inr falling_first_wave))
      (csv_files three_files) =
      [(5, 7 / 2, 9 / 2, 5 / 2, - 3), (1, 7 / 2, 9 / 2, 5 / 2, - 3), (3, 7 / 2, 9 / 2, 5 / 2, - 3)]"
    by (simp add: csv analysed_def lookup_def three_voltages_def falling_first_wave_metrics)
  have voltages: "List.map_filter
      (loaded (lookup three_voltages) (\<lambda>file_name. Inr falling_first_wave))
      (csv_files three_files) = [5, 1, 3]"
    by (simp add: csv loaded_def lookup_def three_voltages_def)
  show ?thesis
    using data_integration_order [OF raised records [symmetric]]
    by (simp add: voltages)
qed

text \<open>
  C1. Ten files, the fourth with a response that decays and never returns, so that its
  analysis raises the \<open>ValueError\<close> of line 83. Line 121 has appended its voltage before
  the analysis ran: the voltage array has ten entries, the four metric arrays nine, and
  from the fourth entry on the voltage at an index belongs to the file before the one
  whose metrics stand at that index.
\<close>

theorem data_integration_voltage_of_failed_record:
  "data_integration pass_through (lookup ten_voltages) decay_in_fourth ten_files =
   Inr \<lparr>voltage_group = [1, 2, 3, 4, 5, 6, 7, 8, 9, 10],
        rise_time_group = [7 / 2, 7 / 2, 7 / 2, 7 / 2, 7 / 2, 7 / 2, 7 / 2, 7 / 2, 7 / 2],
        fall_time_group = [9 / 2, 9 / 2, 9 / 2, 9 / 2, 9 / 2, 9 / 2, 9 / 2, 9 / 2, 9 / 2],
        rise_response_time_group = [5 / 2, 5 / 2, 5 / 2, 5 / 2, 5 / 2, 5 / 2, 5 / 2, 5 / 2, 5 / 2],
        fall_response_time_group = [- 3, - 3, - 3, - 3, - 3, - 3, - 3, - 3, - 3]\<rparr> \<and>
   main_analysis pass_through decay_wave = Inl (ValueError TwoLowIntersectionsNotFound)"
  by (simp add: data_integration_def empty_groups_def ten_files_def loop_body_def try_body_def
      lookup_def ten_voltages_def decay_in_fourth_def falling_first_wave_metrics decay_wave_fails)


end
